theory Spec2Isabelle
  imports Main "HOL-Library.Word" "HOL-Library.Code_Target_Nat"
begin

unbundle bit_operations_syntax

section \<open>Machine types\<close>

type_synonym u8 = "8 word"
type_synonym u16 = "16 word"
type_synonym u32 = "32 word"
type_synonym u64 = "64 word"

section \<open>cpu/arm7\_cpu.h: modes, status flags, vectors\<close>

text \<open>
  \<^verbatim>\<open>enum class CpuMode : uint32_t\<close> has a fixed underlying type, so a value of the
  enumeration is any 32-bit pattern; \<^verbatim>\<open>get_current_mode\<close> casts the low five bits of
  the status register to it without a check.  The enumeration is therefore a 32-bit word
  with seven named values.
\<close>

type_synonym CpuMode = u32

definition USER :: CpuMode where "USER = 0x10"
definition FIQ :: CpuMode where "FIQ = 0x11"
definition IRQ :: CpuMode where "IRQ = 0x12"
definition SUPERVISOR :: CpuMode where "SUPERVISOR = 0x13"
definition ABORT :: CpuMode where "ABORT = 0x17"
definition UNDEFINED :: CpuMode where "UNDEFINED = 0x1B"
definition SYSTEM :: CpuMode where "SYSTEM = 0x1F"

definition cpu_modes :: "CpuMode list" where
  "cpu_modes = [USER, FIQ, IRQ, SUPERVISOR, ABORT, UNDEFINED, SYSTEM]"

definition FLAG_N :: u32 where "FLAG_N = push_bit 31 1"
definition FLAG_Z :: u32 where "FLAG_Z = push_bit 30 1"
definition FLAG_C :: u32 where "FLAG_C = push_bit 29 1"
definition FLAG_V :: u32 where "FLAG_V = push_bit 28 1"
definition FLAG_I :: u32 where "FLAG_I = push_bit 7 1"
definition FLAG_F :: u32 where "FLAG_F = push_bit 6 1"
definition FLAG_T :: u32 where "FLAG_T = push_bit 5 1"

definition VECTOR_RESET :: u32 where "VECTOR_RESET = 0x00000000"
definition VECTOR_UNDEFINED :: u32 where "VECTOR_UNDEFINED = 0x00000004"
definition VECTOR_SWI :: u32 where "VECTOR_SWI = 0x00000008"
definition VECTOR_PREFETCH_ABORT :: u32 where "VECTOR_PREFETCH_ABORT = 0x0000000C"
definition VECTOR_DATA_ABORT :: u32 where "VECTOR_DATA_ABORT = 0x00000010"
definition VECTOR_IRQ :: u32 where "VECTOR_IRQ = 0x00000018"
definition VECTOR_FIQ :: u32 where "VECTOR_FIQ = 0x0000001C"

text \<open>
  The class \<^verbatim>\<open>ARM7CPU\<close>.  The fixed-size \<^verbatim>\<open>std::array\<close> members are lists; \<open>cpu_wf\<close>
  records their sizes (16, 5, 6, 6, 10).  \<^verbatim>\<open>int cycles\<close> is a 32-bit signed integer: the
  model keeps its 32-bit pattern (\<open>sint\<close> reads the value), so that an increment at the
  largest value wraps to the smallest, as it does in the compiled program.
\<close>

record ARM7CPU =
  registers :: "u32 list"
  cpsr :: u32
  spsr :: "u32 list"
  banked_r13 :: "u32 list"
  banked_r14 :: "u32 list"
  banked_r8_r12 :: "u32 list"
  thumb_mode :: bool
  cycles :: u32

definition cpu_wf :: "ARM7CPU \<Rightarrow> bool" where
  "cpu_wf c \<longleftrightarrow>
     length (registers c) = 16 \<and> length (spsr c) = 5 \<and> length (banked_r13 c) = 6 \<and>
     length (banked_r14 c) = 6 \<and> length (banked_r8_r12 c) = 10"

section \<open>cpu/arm7\_cpu.cpp: condition evaluation\<close>

text \<open>
  \<^verbatim>\<open>bool ARM7CPU::check_condition(uint32_t condition)\<close>: a switch over the condition
  number with a \<^verbatim>\<open>default: return false\<close>.  A C++ integer used as a truth value is
  true when it is not zero.
\<close>

definition check_condition :: "ARM7CPU \<Rightarrow> u32 \<Rightarrow> bool" where
  "check_condition c condition =
    (if condition = 0x0 then (cpsr c AND FLAG_Z) \<noteq> 0
     else if condition = 0x1 then (cpsr c AND FLAG_Z) = 0
     else if condition = 0x2 then (cpsr c AND FLAG_C) \<noteq> 0
     else if condition = 0x3 then (cpsr c AND FLAG_C) = 0
     else if condition = 0x4 then (cpsr c AND FLAG_N) \<noteq> 0
     else if condition = 0x5 then (cpsr c AND FLAG_N) = 0
     else if condition = 0x6 then (cpsr c AND FLAG_V) \<noteq> 0
     else if condition = 0x7 then (cpsr c AND FLAG_V) = 0
     else if condition = 0x8 then (cpsr c AND FLAG_C) \<noteq> 0 \<and> \<not> ((cpsr c AND FLAG_Z) \<noteq> 0)
     else if condition = 0x9 then \<not> ((cpsr c AND FLAG_C) \<noteq> 0) \<or> (cpsr c AND FLAG_Z) \<noteq> 0
     else if condition = 0xA then ((cpsr c AND FLAG_N) \<noteq> 0) = ((cpsr c AND FLAG_V) \<noteq> 0)
     else if condition = 0xB then ((cpsr c AND FLAG_N) \<noteq> 0) \<noteq> ((cpsr c AND FLAG_V) \<noteq> 0)
     else if condition = 0xC then
       \<not> ((cpsr c AND FLAG_Z) \<noteq> 0) \<and> (((cpsr c AND FLAG_N) \<noteq> 0) = ((cpsr c AND FLAG_V) \<noteq> 0))
     else if condition = 0xD then
       (cpsr c AND FLAG_Z) \<noteq> 0 \<or> (((cpsr c AND FLAG_N) \<noteq> 0) \<noteq> ((cpsr c AND FLAG_V) \<noteq> 0))
     else if condition = 0xE then True
     else if condition = 0xF then False
     else False)"

section \<open>cpu/arm7\_cpu.cpp: register and mode bank\<close>

definition get_current_mode :: "ARM7CPU \<Rightarrow> CpuMode" where
  "get_current_mode c = cpsr c AND 0x1F"

text \<open>The switch of \<^verbatim>\<open>get_mode_index\<close>, with its \<^verbatim>\<open>default: return 0\<close>.\<close>

definition get_mode_index :: "CpuMode \<Rightarrow> nat" where
  "get_mode_index mode =
    (if mode = USER \<or> mode = SYSTEM then 0
     else if mode = FIQ then 1
     else if mode = IRQ then 2
     else if mode = SUPERVISOR then 3
     else if mode = ABORT then 4
     else if mode = UNDEFINED then 5
     else 0)"

text \<open>
  \<^verbatim>\<open>save_banked_registers\<close>: R13 and R14 go to the slot of the mode being left; the loop
  \<^verbatim>\<open>for (int i = 0; i < 5; i++) banked_r8_r12[i] = registers[8 + i];\<close> runs only when
  that mode is FIQ.  Nothing here writes \<^verbatim>\<open>banked_r8_r12[5..9]\<close>.
\<close>

definition save_banked_registers :: "ARM7CPU \<Rightarrow> CpuMode \<Rightarrow> ARM7CPU" where
  "save_banked_registers c prior_mode =
    (let mode_index = get_mode_index prior_mode;
         c1 = c\<lparr>banked_r13 := (banked_r13 c)[mode_index := registers c ! 13]\<rparr>;
         c2 = c1\<lparr>banked_r14 := (banked_r14 c1)[mode_index := registers c1 ! 14]\<rparr>
     in if prior_mode = FIQ
        then c2\<lparr>banked_r8_r12 :=
                 fold (\<lambda>i b. b[i := registers c2 ! (8 + i)]) [0..<5] (banked_r8_r12 c2)\<rparr>
        else c2)"

text \<open>
  \<^verbatim>\<open>restore_banked_registers\<close>: R13 and R14 come from the slot of the mode entered;
  R8 to R12 come from \<^verbatim>\<open>banked_r8_r12[0..4]\<close> when that mode is FIQ and from
  \<^verbatim>\<open>banked_r8_r12[5..9]\<close> otherwise.
\<close>

definition restore_banked_registers :: "ARM7CPU \<Rightarrow> CpuMode \<Rightarrow> ARM7CPU" where
  "restore_banked_registers c new_mode =
    (let mode_index = get_mode_index new_mode;
         c1 = c\<lparr>registers := (registers c)[13 := banked_r13 c ! mode_index]\<rparr>;
         c2 = c1\<lparr>registers := (registers c1)[14 := banked_r14 c1 ! mode_index]\<rparr>
     in if new_mode = FIQ
        then c2\<lparr>registers :=
                 fold (\<lambda>i r. r[8 + i := banked_r8_r12 c2 ! i]) [0..<5] (registers c2)\<rparr>
        else c2\<lparr>registers :=
                 fold (\<lambda>i r. r[8 + i := banked_r8_r12 c2 ! (5 + i)]) [0..<5] (registers c2)\<rparr>)"

definition switch_mode :: "ARM7CPU \<Rightarrow> CpuMode \<Rightarrow> ARM7CPU" where
  "switch_mode c new_mode =
    (let prior_mode = get_current_mode c
     in if prior_mode = new_mode then c
        else let c1 = save_banked_registers c prior_mode;
                 c2 = c1\<lparr>cpsr := (cpsr c1 AND NOT 0x1F) OR new_mode\<rparr>
             in restore_banked_registers c2 new_mode)"

text \<open>\<^verbatim>\<open>flush_pipeline\<close> has an empty body in the source.\<close>

definition flush_pipeline :: "ARM7CPU \<Rightarrow> ARM7CPU" where
  "flush_pipeline c = c"

section \<open>cpu/arm7\_cpu.cpp: reset and exception entry\<close>

definition reset :: "ARM7CPU \<Rightarrow> ARM7CPU" where
  "reset c =
    (let c1 = c\<lparr>registers := replicate 16 0\<rparr>;
         c2 = c1\<lparr>registers := (registers c1)[15 := 0x08000000]\<rparr>;
         c3 = c2\<lparr>cpsr := SYSTEM\<rparr>;
         c4 = c3\<lparr>spsr := replicate 5 0, banked_r13 := replicate 6 0,
                 banked_r14 := replicate 6 0, banked_r8_r12 := replicate 10 0\<rparr>;
         c5 = c4\<lparr>thumb_mode := False, cycles := 0\<rparr>;
         c6 = c5\<lparr>banked_r13 := (banked_r13 c5)[get_mode_index USER := 0x03007F00]\<rparr>;
         c7 = c6\<lparr>banked_r13 := (banked_r13 c6)[get_mode_index IRQ := 0x03007FA0]\<rparr>;
         c8 = c7\<lparr>banked_r13 := (banked_r13 c7)[get_mode_index FIQ := 0x03007FE0]\<rparr>;
         c9 = c8\<lparr>banked_r13 := (banked_r13 c8)[get_mode_index SUPERVISOR := 0x03007FE0]\<rparr>;
         c10 = c9\<lparr>banked_r13 := (banked_r13 c9)[get_mode_index ABORT := 0x03007FE0]\<rparr>
     in c10\<lparr>banked_r13 := (banked_r13 c10)[get_mode_index UNDEFINED := 0x03007FE0]\<rparr>)"

text \<open>
  \<^verbatim>\<open>handle_irq\<close> and \<^verbatim>\<open>handle_fiq\<close> take a \<^verbatim>\<open>GBASystem&\<close> that their bodies never
  use, so the model takes the processor alone.  Register arithmetic is \<^verbatim>\<open>uint32_t\<close>
  arithmetic and wraps.
\<close>

definition handle_irq :: "ARM7CPU \<Rightarrow> ARM7CPU" where
  "handle_irq c =
    (let c1 = c\<lparr>spsr := (spsr c)[get_mode_index IRQ := cpsr c]\<rparr>;
         return_address =
           (if thumb_mode c1 then registers c1 ! 15 - 2 else registers c1 ! 15 - 4);
         c2 = c1\<lparr>banked_r14 := (banked_r14 c1)[get_mode_index IRQ := return_address]\<rparr>;
         c3 = switch_mode c2 IRQ;
         c4 = c3\<lparr>cpsr := cpsr c3 OR FLAG_I\<rparr>;
         c5 = c4\<lparr>cpsr := cpsr c4 AND NOT FLAG_T\<rparr>;
         c6 = c5\<lparr>thumb_mode := False\<rparr>;
         c7 = c6\<lparr>registers := (registers c6)[15 := VECTOR_IRQ]\<rparr>;
         c8 = flush_pipeline c7
     in c8\<lparr>cycles := cycles c8 + 3\<rparr>)"

definition handle_fiq :: "ARM7CPU \<Rightarrow> ARM7CPU" where
  "handle_fiq c =
    (let c1 = c\<lparr>spsr := (spsr c)[get_mode_index FIQ := cpsr c]\<rparr>;
         return_address =
           (if thumb_mode c1 then registers c1 ! 15 - 2 else registers c1 ! 15 - 4);
         c2 = c1\<lparr>banked_r14 := (banked_r14 c1)[get_mode_index FIQ := return_address]\<rparr>;
         c3 = switch_mode c2 FIQ;
         c4 = c3\<lparr>cpsr := cpsr c3 OR (FLAG_F OR FLAG_I)\<rparr>;
         c5 = c4\<lparr>cpsr := cpsr c4 AND NOT FLAG_T\<rparr>;
         c6 = c5\<lparr>thumb_mode := False\<rparr>;
         c7 = c6\<lparr>registers := (registers c6)[15 := VECTOR_FIQ]\<rparr>;
         c8 = flush_pipeline c7
     in c8\<lparr>cycles := cycles c8 + 3\<rparr>)"

section \<open>memory/memory.h and memory/memory.cpp: the bus\<close>

definition BIOS_SIZE :: nat where "BIOS_SIZE = 0x4000"
definition EWRAM_SIZE :: nat where "EWRAM_SIZE = 0x40000"
definition IWRAM_SIZE :: nat where "IWRAM_SIZE = 0x8000"
definition IO_SIZE :: nat where "IO_SIZE = 0x400"
definition PALETTE_SIZE :: nat where "PALETTE_SIZE = 0x400"
definition VRAM_SIZE :: nat where "VRAM_SIZE = 0x18000"
definition OAM_SIZE :: nat where "OAM_SIZE = 0x400"

definition BIOS_START :: u32 where "BIOS_START = 0x00000000"
definition EWRAM_START :: u32 where "EWRAM_START = 0x02000000"
definition IWRAM_START :: u32 where "IWRAM_START = 0x03000000"
definition IO_START :: u32 where "IO_START = 0x04000000"
definition PALETTE_START :: u32 where "PALETTE_START = 0x05000000"
definition VRAM_START :: u32 where "VRAM_START = 0x06000000"
definition OAM_START :: u32 where "OAM_START = 0x07000000"
definition ROM_START :: u32 where "ROM_START = 0x08000000"

text \<open>
  The class \<^verbatim>\<open>GBAMemory\<close>.  Each fixed-size byte array is a function from the offset
  to the byte: the address decoder below only ever produces offsets inside the array.
  The cartridge image is a \<^verbatim>\<open>std::vector\<close> whose size the decoder consults, so it is a
  list.
\<close>

record GBAMemory =
  bios :: "nat \<Rightarrow> u8"
  ewram :: "nat \<Rightarrow> u8"
  iwram :: "nat \<Rightarrow> u8"
  io_registers :: "nat \<Rightarrow> u8"
  palette :: "nat \<Rightarrow> u8"
  vram :: "nat \<Rightarrow> u8"
  oam :: "nat \<Rightarrow> u8"
  rom :: "u8 list"

text \<open>
  \<^verbatim>\<open>*reinterpret_cast<const uint32_t*>(&a[off])\<close> and the assignment through the same
  cast, on the little-endian hosts the emulator is built for: four consecutive bytes,
  least significant first.
\<close>

definition load32 :: "(nat \<Rightarrow> u8) \<Rightarrow> nat \<Rightarrow> u32" where
  "load32 a off =
     ucast (a off) OR push_bit 8 (ucast (a (off + 1))) OR
     push_bit 16 (ucast (a (off + 2))) OR push_bit 24 (ucast (a (off + 3)))"

definition store32 :: "(nat \<Rightarrow> u8) \<Rightarrow> nat \<Rightarrow> u32 \<Rightarrow> (nat \<Rightarrow> u8)" where
  "store32 a off v =
     a(off := ucast v, off + 1 := ucast (drop_bit 8 v),
       off + 2 := ucast (drop_bit 16 v), off + 3 := ucast (drop_bit 24 v))"

text \<open>
  The comparisons \<^verbatim>\<open>address < X_START + X_SIZE\<close> add a \<^verbatim>\<open>size_t\<close> to a
  \<^verbatim>\<open>uint32_t\<close> and so are carried out without wrap-around: they are comparisons of
  natural numbers.
\<close>

definition in_region :: "u32 \<Rightarrow> u32 \<Rightarrow> nat \<Rightarrow> bool" where
  "in_region address start sz \<longleftrightarrow> unat start \<le> unat address \<and> unat address < unat start + sz"

definition read32 :: "GBAMemory \<Rightarrow> u32 \<Rightarrow> u32" where
  "read32 m address0 =
    (let address = address0 AND NOT 3
     in if in_region address BIOS_START BIOS_SIZE then load32 (bios m) (unat address)
        else if in_region address EWRAM_START EWRAM_SIZE
          then load32 (ewram m) (unat (address - EWRAM_START))
        else if in_region address IWRAM_START IWRAM_SIZE
          then load32 (iwram m) (unat (address - IWRAM_START))
        else if in_region address IO_START IO_SIZE
          then load32 (io_registers m) (unat (address - IO_START))
        else if in_region address PALETTE_START PALETTE_SIZE
          then load32 (palette m) (unat (address - PALETTE_START))
        else if in_region address VRAM_START VRAM_SIZE
          then load32 (vram m) (unat (address - VRAM_START))
        else if in_region address OAM_START OAM_SIZE
          then load32 (oam m) (unat (address - OAM_START))
        else if in_region address ROM_START (length (rom m))
          then load32 (\<lambda>i. rom m ! i) (unat (address - ROM_START))
        else 0)"

definition read16 :: "GBAMemory \<Rightarrow> u32 \<Rightarrow> u16" where
  "read16 m address =
    (let word = read32 m (address AND NOT 3)
     in if address AND 2 \<noteq> 0 then ucast (drop_bit 16 word) else ucast (word AND 0xFFFF))"

definition read8 :: "GBAMemory \<Rightarrow> u32 \<Rightarrow> u8" where
  "read8 m address =
    (let word = read32 m (address AND NOT 3)
     in ucast (drop_bit (unat ((address AND 3) * 8)) word AND 0xFF))"

definition write32 :: "GBAMemory \<Rightarrow> u32 \<Rightarrow> u32 \<Rightarrow> GBAMemory" where
  "write32 m address0 v =
    (let address = address0 AND NOT 3
     in if in_region address EWRAM_START EWRAM_SIZE
          then m\<lparr>ewram := store32 (ewram m) (unat (address - EWRAM_START)) v\<rparr>
        else if in_region address IWRAM_START IWRAM_SIZE
          then m\<lparr>iwram := store32 (iwram m) (unat (address - IWRAM_START)) v\<rparr>
        else if in_region address IO_START IO_SIZE
          then m\<lparr>io_registers := store32 (io_registers m) (unat (address - IO_START)) v\<rparr>
        else if in_region address PALETTE_START PALETTE_SIZE
          then m\<lparr>palette := store32 (palette m) (unat (address - PALETTE_START)) v\<rparr>
        else if in_region address VRAM_START VRAM_SIZE
          then m\<lparr>vram := store32 (vram m) (unat (address - VRAM_START)) v\<rparr>
        else if in_region address OAM_START OAM_SIZE
          then m\<lparr>oam := store32 (oam m) (unat (address - OAM_START)) v\<rparr>
        else m)"

text \<open>
  \<^verbatim>\<open>write16\<close>.  In the odd-address branch the mask \<^verbatim>\<open>0xFFFF << shift\<close> and the
  shifted operand are taken as 32-bit values: bits shifted past bit 31 are lost.
\<close>

definition write16 :: "GBAMemory \<Rightarrow> u32 \<Rightarrow> u16 \<Rightarrow> GBAMemory" where
  "write16 m address v =
    (if address AND 1 \<noteq> 0 then
       (let aligned_addr = address AND NOT 3;
            old_value = read32 m aligned_addr;
            shift = (address AND 3) * 8;
            mask = push_bit (unat shift) (0xFFFF :: u32);
            new_value = (old_value AND NOT mask) OR push_bit (unat shift) (ucast v)
        in write32 m aligned_addr new_value)
     else
       (let aligned_addr = address AND NOT 3;
            old_value = read32 m aligned_addr
        in if address AND 2 \<noteq> 0
           then write32 m aligned_addr ((old_value AND 0xFFFF) OR push_bit 16 (ucast v))
           else write32 m aligned_addr ((old_value AND 0xFFFF0000) OR ucast v)))"

definition write8 :: "GBAMemory \<Rightarrow> u32 \<Rightarrow> u8 \<Rightarrow> GBAMemory" where
  "write8 m address v =
    (let aligned_addr = address AND NOT 3;
         old_value = read32 m aligned_addr;
         shift = (address AND 3) * 8;
         mask = push_bit (unat shift) (0xFF :: u32);
         new_value = (old_value AND NOT mask) OR push_bit (unat shift) (ucast v)
     in write32 m aligned_addr new_value)"

definition memory_reset :: "GBAMemory \<Rightarrow> GBAMemory" where
  "memory_reset m =
     m\<lparr>ewram := (\<lambda>_. 0), iwram := (\<lambda>_. 0), io_registers := (\<lambda>_. 0),
       palette := (\<lambda>_. 0), vram := (\<lambda>_. 0), oam := (\<lambda>_. 0)\<rparr>"

definition is_writable :: "GBAMemory \<Rightarrow> u32 \<Rightarrow> bool" where
  "is_writable m address \<longleftrightarrow>
     in_region address EWRAM_START EWRAM_SIZE \<or> in_region address IWRAM_START IWRAM_SIZE \<or>
     in_region address IO_START IO_SIZE \<or> in_region address PALETTE_START PALETTE_SIZE \<or>
     in_region address VRAM_START VRAM_SIZE \<or> in_region address OAM_START OAM_SIZE"

text \<open>A bus write of any width, and a sequence of them applied in order.\<close>

datatype bus_write = Write8 u32 u8 | Write16 u32 u16 | Write32 u32 u32

fun apply_write :: "GBAMemory \<Rightarrow> bus_write \<Rightarrow> GBAMemory" where
  "apply_write m (Write8 a v) = write8 m a v"
| "apply_write m (Write16 a v) = write16 m a v"
| "apply_write m (Write32 a v) = write32 m a v"

definition apply_writes :: "GBAMemory \<Rightarrow> bus_write list \<Rightarrow> GBAMemory" where
  "apply_writes m ws = foldl apply_write m ws"

section \<open>system.h and system.cpp: the machine and its interrupt controller\<close>

definition REG_IE :: u32 where "REG_IE = 0x04000200"
definition REG_IF :: u32 where "REG_IF = 0x04000202"
definition REG_IME :: u32 where "REG_IME = 0x04000208"

text \<open>
  Of the class \<^verbatim>\<open>GBAPPU\<close> the model keeps the display registers that the I/O register
  interface of the machine writes; the scanline counters and the frame buffer are touched
  only by the rendering pipeline.
\<close>

record GBAPPU =
  dispcnt :: u16
  dispstat :: u16
  vcount :: u16
  bg_control :: "u16 list"
  bg_scroll_x :: "u16 list"
  bg_scroll_y :: "u16 list"

text \<open>What the source prints on the standard streams, one entry per line printed.\<close>

datatype log_line =
  SWP_instruction u32
  | SWI_instruction u32
  | ARM_instruction u32
  | Thumb_SWI_instruction u16
  | Thumb_instruction u16
  | Invalid_interrupt_type int

text \<open>
  The class \<^verbatim>\<open>GBASystem\<close>.  Its member \<^verbatim>\<open>cycles\<close> is \<open>sys_cycles\<close> here (the processor
  has a member of the same name), and \<open>console\<close> collects the lines printed.
\<close>

record GBASystem =
  cpu :: ARM7CPU
  memory :: GBAMemory
  ppu :: GBAPPU
  running :: bool
  sys_cycles :: u64
  interrupt_enable :: u16
  interrupt_flags :: u16
  interrupt_master :: u32
  console :: "log_line list"

definition request_interrupt :: "GBASystem \<Rightarrow> int \<Rightarrow> GBASystem" where
  "request_interrupt g interrupt_type =
    (if interrupt_type < 0 \<or> interrupt_type > 13
     then g\<lparr>console := console g @ [Invalid_interrupt_type interrupt_type]\<rparr>
     else g\<lparr>interrupt_flags := interrupt_flags g OR push_bit (nat interrupt_type) 1\<rparr>)"

definition has_pending_interrupts :: "GBASystem \<Rightarrow> bool" where
  "has_pending_interrupts g =
    (if \<not> (interrupt_master g AND 1 \<noteq> 0) then False
     else (interrupt_flags g AND interrupt_enable g) \<noteq> 0)"

text \<open>
  \<^verbatim>\<open>write_io_register\<close>, the byte-wide register write.  The operands are promoted to
  \<^verbatim>\<open>int\<close> and the result is narrowed to the width of the register assigned.
\<close>

definition write_io_register :: "GBASystem \<Rightarrow> u32 \<Rightarrow> u8 \<Rightarrow> GBASystem" where
  "write_io_register g address v =
    (if address = REG_IE
       then g\<lparr>interrupt_enable := (interrupt_enable g AND 0xFF00) OR ucast v\<rparr>
     else if address = REG_IE + 1
       then g\<lparr>interrupt_enable := (interrupt_enable g AND 0x00FF) OR push_bit 8 (ucast v)\<rparr>
     else if address = REG_IF
       then g\<lparr>interrupt_flags := interrupt_flags g AND NOT (ucast v)\<rparr>
     else if address = REG_IF + 1
       then g\<lparr>interrupt_flags := interrupt_flags g AND NOT (push_bit 8 (ucast v))\<rparr>
     else if address = REG_IME
       then g\<lparr>interrupt_master := (interrupt_master g AND 0xFFFFFF00) OR ucast v\<rparr>
     else if address = REG_IME + 1 \<or> address = REG_IME + 2 \<or> address = REG_IME + 3
       then (let shift = unat ((address - REG_IME) * 8);
                 mask = NOT (push_bit shift (0xFF :: u32))
             in g\<lparr>interrupt_master := (interrupt_master g AND mask) OR push_bit shift (ucast v)\<rparr>)
     else if address = 0x04000000
       then g\<lparr>ppu := (ppu g)\<lparr>dispcnt := (dispcnt (ppu g) AND 0xFF00) OR ucast v\<rparr>\<rparr>
     else if address = 0x04000001
       then g\<lparr>ppu := (ppu g)\<lparr>dispcnt := (dispcnt (ppu g) AND 0x00FF) OR push_bit 8 (ucast v)\<rparr>\<rparr>
     else if address = 0x04000004
       then g\<lparr>ppu := (ppu g)\<lparr>dispstat := (dispstat (ppu g) AND 0xFF00) OR ucast (v AND 0xF8)\<rparr>\<rparr>
     else if address = 0x04000005
       then g\<lparr>ppu := (ppu g)\<lparr>dispstat := (dispstat (ppu g) AND 0x00FF) OR push_bit 8 (ucast v)\<rparr>\<rparr>
     else g)"

definition write_io_register16 :: "GBASystem \<Rightarrow> u32 \<Rightarrow> u16 \<Rightarrow> GBASystem" where
  "write_io_register16 g address v =
    (if address = REG_IE then g\<lparr>interrupt_enable := v\<rparr>
     else if address = REG_IF then g\<lparr>interrupt_flags := interrupt_flags g AND NOT v\<rparr>
     else if address = REG_IME
       then g\<lparr>interrupt_master := (interrupt_master g AND 0xFFFF0000) OR ucast v\<rparr>
     else if address = 0x04000000 then g\<lparr>ppu := (ppu g)\<lparr>dispcnt := v\<rparr>\<rparr>
     else if address = 0x04000004
       then g\<lparr>ppu := (ppu g)\<lparr>dispstat := (dispstat (ppu g) AND 0x0007) OR (v AND 0xFFF8)\<rparr>\<rparr>
     else if address = 0x04000008 then g\<lparr>ppu := (ppu g)\<lparr>bg_control := (bg_control (ppu g))[0 := v]\<rparr>\<rparr>
     else if address = 0x0400000A then g\<lparr>ppu := (ppu g)\<lparr>bg_control := (bg_control (ppu g))[1 := v]\<rparr>\<rparr>
     else if address = 0x0400000C then g\<lparr>ppu := (ppu g)\<lparr>bg_control := (bg_control (ppu g))[2 := v]\<rparr>\<rparr>
     else if address = 0x0400000E then g\<lparr>ppu := (ppu g)\<lparr>bg_control := (bg_control (ppu g))[3 := v]\<rparr>\<rparr>
     else if address = 0x04000010 then g\<lparr>ppu := (ppu g)\<lparr>bg_scroll_x := (bg_scroll_x (ppu g))[0 := v]\<rparr>\<rparr>
     else if address = 0x04000012 then g\<lparr>ppu := (ppu g)\<lparr>bg_scroll_y := (bg_scroll_y (ppu g))[0 := v]\<rparr>\<rparr>
     else if address = 0x04000014 then g\<lparr>ppu := (ppu g)\<lparr>bg_scroll_x := (bg_scroll_x (ppu g))[1 := v]\<rparr>\<rparr>
     else if address = 0x04000016 then g\<lparr>ppu := (ppu g)\<lparr>bg_scroll_y := (bg_scroll_y (ppu g))[1 := v]\<rparr>\<rparr>
     else if address = 0x04000018 then g\<lparr>ppu := (ppu g)\<lparr>bg_scroll_x := (bg_scroll_x (ppu g))[2 := v]\<rparr>\<rparr>
     else if address = 0x0400001A then g\<lparr>ppu := (ppu g)\<lparr>bg_scroll_y := (bg_scroll_y (ppu g))[2 := v]\<rparr>\<rparr>
     else if address = 0x0400001C then g\<lparr>ppu := (ppu g)\<lparr>bg_scroll_x := (bg_scroll_x (ppu g))[3 := v]\<rparr>\<rparr>
     else if address = 0x0400001E then g\<lparr>ppu := (ppu g)\<lparr>bg_scroll_y := (bg_scroll_y (ppu g))[3 := v]\<rparr>\<rparr>
     else write_io_register (write_io_register g address (ucast (v AND 0xFF)))
            (address + 1) (ucast (drop_bit 8 v AND 0xFF)))"


section \<open>cpu/arm7\_cpu.cpp: instruction execution and the step function\<close>

text \<open>
  \<^verbatim>\<open>execute_arm\<close> and \<^verbatim>\<open>execute_thumb\<close>: every branch of the decoder prints one line
  and does nothing else; an ARM instruction whose condition fails returns before that.
\<close>

definition execute_arm :: "GBASystem \<Rightarrow> u32 \<Rightarrow> GBASystem" where
  "execute_arm gba instruction =
    (let condition = drop_bit 28 instruction AND 0xF
     in if \<not> check_condition (cpu gba) condition then gba
        else if instruction AND 0x0FB00FF0 = 0x01000090
          then gba\<lparr>console := console gba @ [SWP_instruction instruction]\<rparr>
        else if instruction AND 0x0F000000 = 0x0F000000
          then gba\<lparr>console := console gba @ [SWI_instruction instruction]\<rparr>
        else gba\<lparr>console := console gba @ [ARM_instruction instruction]\<rparr>)"

definition execute_thumb :: "GBASystem \<Rightarrow> u16 \<Rightarrow> GBASystem" where
  "execute_thumb gba instruction =
    (if instruction AND 0xFF00 = 0xDF00
       then gba\<lparr>console := console gba @ [Thumb_SWI_instruction instruction]\<rparr>
     else gba\<lparr>console := console gba @ [Thumb_instruction instruction]\<rparr>)"

text \<open>
  \<^verbatim>\<open>ARM7CPU::step\<close>.  The processor is the member \<^verbatim>\<open>cpu\<close> of the machine passed in, so
  the step maps a machine to a machine.
\<close>

definition step :: "GBASystem \<Rightarrow> GBASystem" where
  "step gba =
    (if \<not> (cpsr (cpu gba) AND FLAG_I \<noteq> 0) \<and> has_pending_interrupts gba
     then gba\<lparr>cpu := handle_irq (cpu gba)\<rparr>
     else
       (let g1 =
          (if thumb_mode (cpu gba) then
             (let instruction = read16 (memory gba) (registers (cpu gba) ! 15);
                  g' = gba\<lparr>cpu := (cpu gba)\<lparr>registers :=
                         (registers (cpu gba))[15 := registers (cpu gba) ! 15 + 2]\<rparr>\<rparr>
              in execute_thumb g' instruction)
           else
             (let instruction = read32 (memory gba) (registers (cpu gba) ! 15);
                  g' = gba\<lparr>cpu := (cpu gba)\<lparr>registers :=
                         (registers (cpu gba))[15 := registers (cpu gba) ! 15 + 4]\<rparr>\<rparr>
              in execute_arm g' instruction))
        in g1\<lparr>cpu := (cpu g1)\<lparr>cycles := cycles (cpu g1) + 1\<rparr>\<rparr>))"

text \<open>
  The machine as \<^verbatim>\<open>main\<close> builds it: the constructor and the default member
  initialisers (everything zero), then \<^verbatim>\<open>GBASystem::init\<close>, which resets the processor,
  the display registers and the memory.
\<close>

definition GBASystem_new :: GBASystem where
  "GBASystem_new =
     \<lparr>cpu = \<lparr>registers = replicate 16 0, cpsr = 0, spsr = replicate 5 0,
              banked_r13 = replicate 6 0, banked_r14 = replicate 6 0,
              banked_r8_r12 = replicate 10 0, thumb_mode = False, cycles = 0\<rparr>,
      memory = \<lparr>bios = (\<lambda>_. 0), ewram = (\<lambda>_. 0), iwram = (\<lambda>_. 0), io_registers = (\<lambda>_. 0),
                 palette = (\<lambda>_. 0), vram = (\<lambda>_. 0), oam = (\<lambda>_. 0), rom = []\<rparr>,
      ppu = \<lparr>dispcnt = 0, dispstat = 0, vcount = 0, bg_control = replicate 4 0,
              bg_scroll_x = replicate 4 0, bg_scroll_y = replicate 4 0\<rparr>,
      running = False, sys_cycles = 0, interrupt_enable = 0, interrupt_flags = 0,
      interrupt_master = 0, console = []\<rparr>"

definition ppu_init :: "GBAPPU \<Rightarrow> GBAPPU" where
  "ppu_init p =
     p\<lparr>dispcnt := 0, dispstat := 0, vcount := 0, bg_control := replicate 4 0,
       bg_scroll_x := replicate 4 0, bg_scroll_y := replicate 4 0\<rparr>"

definition init :: "GBASystem \<Rightarrow> GBASystem" where
  "init g =
     g\<lparr>cpu := reset (cpu g), ppu := ppu_init (ppu g), memory := memory_reset (memory g),
       running := False\<rparr>"

section \<open>Predicates of the specification\<close>

text \<open>
  The instruction set is represented twice, by the member \<^verbatim>\<open>thumb_mode\<close> and by the T
  bit of the status register; the two agree when the boolean is true exactly when the bit
  is set.
\<close>

definition thumb_consistent :: "ARM7CPU \<Rightarrow> bool" where
  "thumb_consistent c \<longleftrightarrow> (thumb_mode c \<longleftrightarrow> cpsr c AND FLAG_T \<noteq> 0)"

text \<open>
  Byte lane \<open>k\<close> (0 for the least significant) of a 32-bit word: the byte that
  \<^verbatim>\<open>read8\<close> selects from the aligned word for an address with low bits \<open>k\<close>.
\<close>

definition byte_lane :: "u32 \<Rightarrow> nat \<Rightarrow> u8" where
  "byte_lane w k = ucast (drop_bit (8 * k) w)"



section \<open>Concrete machines\<close>

text \<open>
  The machine after \<^verbatim>\<open>init\<close>, and the same machine with the master enable and the
  enable bit of interrupt type 0 written through the register interface and interrupt
  type 0 (V-blank) requested.
\<close>

definition machine0 :: GBASystem where
  "machine0 = init GBASystem_new"

definition vblank_machine :: GBASystem where
  "vblank_machine =
     request_interrupt (write_io_register16 (write_io_register16 machine0 REG_IME 1) REG_IE 1) 0"

text \<open>The V-blank machine with the program counter at \<open>0x08000100\<close>.\<close>

definition irq_entry_machine :: GBASystem where
  "irq_entry_machine =
     vblank_machine\<lparr>cpu := (cpu vblank_machine)\<lparr>registers :=
       (registers (cpu vblank_machine))[15 := 0x08000100]\<rparr>\<rparr>"

text \<open>The processor after reset with N, Z, C, V and T set, in System mode.\<close>

definition flags_cpu :: ARM7CPU where
  "flags_cpu = (reset (cpu GBASystem_new))\<lparr>cpsr := 0xF000003F\<rparr>"

text \<open>
  The processor after reset, in System mode, with R8 = \<open>0xCAFEBABE\<close>,
  R13 = \<open>0x03007F00\<close> and R14 = \<open>0x08000200\<close>.
\<close>

definition mode_trip_cpu :: ARM7CPU where
  "mode_trip_cpu =
     (reset (cpu GBASystem_new))\<lparr>registers :=
        (registers (reset (cpu GBASystem_new)))
          [8 := 0xCAFEBABE, 13 := 0x03007F00, 14 := 0x08000200]\<rparr>"

text \<open>
  The machine after \<^verbatim>\<open>init\<close> with a four-byte cartridge image holding the word
  \<open>0xE7F000F0\<close>, an encoding the ARM architecture leaves undefined, at the reset value
  of the program counter.
\<close>

definition undefined_machine :: GBASystem where
  "undefined_machine = machine0\<lparr>memory := (memory machine0)\<lparr>rom := [0xF0, 0x00, 0xF0, 0xE7]\<rparr>\<rparr>"

text \<open>The memory after \<^verbatim>\<open>init\<close> with \<open>0xDEADBEEF\<close> written at the start of work RAM.\<close>

definition deadbeef_memory :: GBAMemory where
  "deadbeef_memory = write32 (memory machine0) EWRAM_START 0xDEADBEEF"

section \<open>Auxiliary facts\<close>

lemmas mode_defs = USER_def SYSTEM_def FIQ_def IRQ_def SUPERVISOR_def ABORT_def UNDEFINED_def
lemmas flag_defs = FLAG_N_def FLAG_Z_def FLAG_C_def FLAG_V_def FLAG_I_def FLAG_F_def FLAG_T_def
lemmas vector_defs = VECTOR_RESET_def VECTOR_UNDEFINED_def VECTOR_SWI_def
  VECTOR_PREFETCH_ABORT_def VECTOR_DATA_ABORT_def VECTOR_IRQ_def VECTOR_FIQ_def
lemmas region_defs = BIOS_SIZE_def EWRAM_SIZE_def IWRAM_SIZE_def IO_SIZE_def PALETTE_SIZE_def
  VRAM_SIZE_def OAM_SIZE_def BIOS_START_def EWRAM_START_def IWRAM_START_def IO_START_def
  PALETTE_START_def VRAM_START_def OAM_START_def ROM_START_def
lemmas reg_defs = REG_IE_def REG_IF_def REG_IME_def

lemma upt_0_5: "[0..<5] = [0, 1, 2, 3, 4]"
  by (simp add: upt_rec)

lemma flag_test: "(w AND push_bit n 1 \<noteq> 0) \<longleftrightarrow> bit (w::u32) n"
  by (simp add: bit_iff_and_push_bit_not_eq_0)

lemma flag_test0: "(w AND push_bit n 1 = 0) \<longleftrightarrow> \<not> bit (w::u32) n"
  by (simp add: bit_iff_and_push_bit_not_eq_0)

section \<open>The condition evaluator\<close>

text \<open>
  Claim C4.  For each of the sixteen condition codes and every status register, with
  N, Z, C and V the bits 31, 30, 29 and 28 of the status register, the evaluator returns
  the documented table value: EQ=Z, NE=!Z, CS=C, CC=!C, MI=N, PL=!N, VS=V, VC=!V,
  HI=C&&!Z, LS=!C||Z, GE=(N==V), LT=(N!=V), GT=!Z&&(N==V), LE=Z||(N!=V), AL=true and
  NV=false.
\<close>

theorem check_condition_table:
  "(let N = bit (cpsr c) 31; Z = bit (cpsr c) 30; C = bit (cpsr c) 29; V = bit (cpsr c) 28
    in check_condition c 0x0 = Z \<and> check_condition c 0x1 = (\<not> Z)
     \<and> check_condition c 0x2 = C \<and> check_condition c 0x3 = (\<not> C)
     \<and> check_condition c 0x4 = N \<and> check_condition c 0x5 = (\<not> N)
     \<and> check_condition c 0x6 = V \<and> check_condition c 0x7 = (\<not> V)
     \<and> check_condition c 0x8 = (C \<and> \<not> Z) \<and> check_condition c 0x9 = (\<not> C \<or> Z)
     \<and> check_condition c 0xA = (N = V) \<and> check_condition c 0xB = (N \<noteq> V)
     \<and> check_condition c 0xC = (\<not> Z \<and> (N = V)) \<and> check_condition c 0xD = (Z \<or> (N \<noteq> V))
     \<and> check_condition c 0xE = True \<and> check_condition c 0xF = False)"
  unfolding Let_def check_condition_def flag_defs flag_test flag_test0
  by simp

text \<open>
  The table at the processor after reset with Z set and the other flags clear: LS holds,
  HI and NV do not.
\<close>

theorem check_condition_table_witness:
  "check_condition ((reset (cpu GBASystem_new))\<lparr>cpsr := 0x4000001F\<rparr>) 0x9
   \<and> \<not> check_condition ((reset (cpu GBASystem_new))\<lparr>cpsr := 0x4000001F\<rparr>) 0x8
   \<and> \<not> check_condition ((reset (cpu GBASystem_new))\<lparr>cpsr := 0x4000001F\<rparr>) 0xF"
  using check_condition_table [of "(reset (cpu GBASystem_new))\<lparr>cpsr := 0x4000001F\<rparr>"]
  by (simp add: Let_def bit_iff_odd_drop_bit)

section \<open>Mode switching\<close>

lemma word_mask_split: "(x AND NOT k) OR (x AND k) = (x :: u32)"
  by (rule bit_eqI) (auto simp add: bit_simps)

lemma and_not_self: "(x AND NOT f) AND f = (0 :: u32)"
  by (rule bit_eqI) (auto simp add: bit_simps)

lemma save_banked_frame:
  "cpsr (save_banked_registers c m) = cpsr c"
  "thumb_mode (save_banked_registers c m) = thumb_mode c"
  "registers (save_banked_registers c m) = registers c"
  "spsr (save_banked_registers c m) = spsr c"
  "cycles (save_banked_registers c m) = cycles c"
  by (simp_all add: save_banked_registers_def Let_def)

lemma restore_banked_frame:
  "cpsr (restore_banked_registers c m) = cpsr c"
  "thumb_mode (restore_banked_registers c m) = thumb_mode c"
  "banked_r13 (restore_banked_registers c m) = banked_r13 c"
  "banked_r14 (restore_banked_registers c m) = banked_r14 c"
  "banked_r8_r12 (restore_banked_registers c m) = banked_r8_r12 c"
  "spsr (restore_banked_registers c m) = spsr c"
  "cycles (restore_banked_registers c m) = cycles c"
  by (simp_all add: restore_banked_registers_def Let_def)

text \<open>
  The status register after a mode switch.  When the target is the current mode the
  switch returns early, and the formula still holds because the mode field already has
  the target's value.
\<close>

lemma switch_mode_cpsr: "cpsr (switch_mode c m) = (cpsr c AND NOT 0x1F) OR m"
proof (cases "get_current_mode c = m")
  case True
  then have "(cpsr c AND NOT 0x1F) OR m = cpsr c"
    using word_mask_split [of "cpsr c" "0x1F"] by (simp add: get_current_mode_def)
  with True show ?thesis by (simp add: switch_mode_def)
next
  case False
  then show ?thesis
    by (simp add: switch_mode_def Let_def restore_banked_frame save_banked_frame)
qed

lemma switch_mode_frame_fields:
  "thumb_mode (switch_mode c m) = thumb_mode c"
  "spsr (switch_mode c m) = spsr c"
  "cycles (switch_mode c m) = cycles c"
  by (simp_all add: switch_mode_def Let_def restore_banked_frame save_banked_frame)

lemma mode_switch_keeps:
  fixes x m f :: u32
  assumes "m AND f = 0" and "NOT 0x1F AND f = f"
  shows "((x AND NOT 0x1F) OR m) AND f = x AND f"
proof -
  have "((x AND NOT 0x1F) OR m) AND f = (x AND (NOT 0x1F AND f)) OR (m AND f)"
    by (simp only: bit.conj_disj_distrib2 and.assoc)
  then show ?thesis using assms by simp
qed

text \<open>
  Claim C8.  For every processor state and every one of the seven modes as target,
  \<open>switch_mode\<close> leaves the N, Z, C and V flags and the instruction-set bit T of the
  status register (and the \<^verbatim>\<open>thumb_mode\<close> member) unchanged; and when the target is the
  current mode, the whole processor state is unchanged.
\<close>

theorem switch_mode_frame:
  "(new_mode \<in> set cpu_modes \<longrightarrow>
      cpsr (switch_mode c new_mode) AND FLAG_N = cpsr c AND FLAG_N
    \<and> cpsr (switch_mode c new_mode) AND FLAG_Z = cpsr c AND FLAG_Z
    \<and> cpsr (switch_mode c new_mode) AND FLAG_C = cpsr c AND FLAG_C
    \<and> cpsr (switch_mode c new_mode) AND FLAG_V = cpsr c AND FLAG_V
    \<and> cpsr (switch_mode c new_mode) AND FLAG_T = cpsr c AND FLAG_T
    \<and> thumb_mode (switch_mode c new_mode) = thumb_mode c)
   \<and> (new_mode = get_current_mode c \<longrightarrow> switch_mode c new_mode = c)"
proof -
  have noop: "new_mode = get_current_mode c \<longrightarrow> switch_mode c new_mode = c"
    by (simp add: switch_mode_def)
  have keep: "cpsr (switch_mode c new_mode) AND f = cpsr c AND f"
    if "new_mode \<in> set cpu_modes" and "f \<in> {FLAG_N, FLAG_Z, FLAG_C, FLAG_V, FLAG_T}" for f
  proof -
    from that have "new_mode AND f = 0" and "NOT 0x1F AND f = f"
      by (auto simp add: cpu_modes_def mode_defs flag_defs)
    then show ?thesis
      by (simp only: switch_mode_cpsr mode_switch_keeps)
  qed
  show ?thesis
    using noop keep by (simp add: switch_mode_frame_fields)
qed

text \<open>
  At the processor with all five bits set, in System mode: a switch to IRQ keeps every
  one of them set, and a switch to System changes nothing.
\<close>

theorem switch_mode_frame_witness:
  "IRQ \<in> set cpu_modes
   \<and> cpsr (switch_mode flags_cpu IRQ) AND FLAG_N = FLAG_N
   \<and> cpsr (switch_mode flags_cpu IRQ) AND FLAG_Z = FLAG_Z
   \<and> cpsr (switch_mode flags_cpu IRQ) AND FLAG_C = FLAG_C
   \<and> cpsr (switch_mode flags_cpu IRQ) AND FLAG_V = FLAG_V
   \<and> cpsr (switch_mode flags_cpu IRQ) AND FLAG_T = FLAG_T
   \<and> get_current_mode (switch_mode flags_cpu IRQ) = IRQ
   \<and> SYSTEM = get_current_mode flags_cpu
   \<and> switch_mode flags_cpu SYSTEM = flags_cpu"
proof -
  have m: "IRQ \<in> set cpu_modes" and s: "SYSTEM = get_current_mode flags_cpu"
    by (simp_all add: cpu_modes_def flags_cpu_def get_current_mode_def mode_defs)
  have f: "cpsr flags_cpu = 0xF000003F"
    by (simp add: flags_cpu_def)
  have "get_current_mode (switch_mode flags_cpu IRQ) = IRQ"
    by (simp add: get_current_mode_def switch_mode_cpsr f mode_defs)
  then show ?thesis
    using m s switch_mode_frame [of IRQ flags_cpu] switch_mode_frame [of SYSTEM flags_cpu]
    by (simp add: f flag_defs)
qed

section \<open>Read-only regions\<close>

lemma write32_bios_rom: "bios (write32 m a v) = bios m \<and> rom (write32 m a v) = rom m"
  by (simp add: write32_def Let_def)

lemma write16_bios_rom: "bios (write16 m a v) = bios m \<and> rom (write16 m a v) = rom m"
  by (simp add: write16_def Let_def write32_bios_rom)

lemma write8_bios_rom: "bios (write8 m a v) = bios m \<and> rom (write8 m a v) = rom m"
  by (simp add: write8_def Let_def write32_bios_rom)

lemma apply_write_bios_rom: "bios (apply_write m w) = bios m \<and> rom (apply_write m w) = rom m"
  by (cases w) (simp_all add: write8_bios_rom write16_bios_rom write32_bios_rom)

text \<open>
  Claim C9.  For every memory, every address and every value, \<open>write8\<close>, \<open>write16\<close> and
  \<open>write32\<close> leave the BIOS array and the cartridge image as they were, and so does every
  sequence of such writes.
\<close>

theorem bus_writes_preserve_bios_rom:
  "bios (write8 m a v8) = bios m \<and> rom (write8 m a v8) = rom m
   \<and> bios (write16 m a v16) = bios m \<and> rom (write16 m a v16) = rom m
   \<and> bios (write32 m a v32) = bios m \<and> rom (write32 m a v32) = rom m
   \<and> bios (apply_writes m ws) = bios m \<and> rom (apply_writes m ws) = rom m"
proof -
  have "bios (foldl apply_write m ws) = bios m \<and> rom (foldl apply_write m ws) = rom m"
    by (induction ws arbitrary: m) (simp_all add: apply_write_bios_rom)
  then show ?thesis
    by (simp add: apply_writes_def write8_bios_rom write16_bios_rom write32_bios_rom)
qed

section \<open>The two representations of the instruction set\<close>

lemma handle_irq_cpsr:
  "cpsr (handle_irq c) = (((cpsr c AND NOT 0x1F) OR IRQ) OR FLAG_I) AND NOT FLAG_T"
  by (simp add: handle_irq_def Let_def flush_pipeline_def switch_mode_cpsr)

lemma handle_fiq_cpsr:
  "cpsr (handle_fiq c) = (((cpsr c AND NOT 0x1F) OR FIQ) OR (FLAG_F OR FLAG_I)) AND NOT FLAG_T"
  by (simp add: handle_fiq_def Let_def flush_pipeline_def switch_mode_cpsr)

lemma handle_irq_thumb: "thumb_mode (handle_irq c) = False"
  by (simp add: handle_irq_def Let_def flush_pipeline_def)

lemma handle_fiq_thumb: "thumb_mode (handle_fiq c) = False"
  by (simp add: handle_fiq_def Let_def flush_pipeline_def)

lemma cpu_execute_arm: "cpu (execute_arm g i) = cpu g"
  by (simp add: execute_arm_def Let_def)

lemma cpu_execute_thumb: "cpu (execute_thumb g i) = cpu g"
  by (simp add: execute_thumb_def)

lemma step_cpsr:
  "cpsr (cpu (step g)) =
     (if cpsr (cpu g) AND FLAG_I = 0 \<and> has_pending_interrupts g
      then cpsr (handle_irq (cpu g)) else cpsr (cpu g))"
  by (simp add: step_def Let_def cpu_execute_arm cpu_execute_thumb)

lemma step_thumb_mode:
  "thumb_mode (cpu (step g)) =
     (if cpsr (cpu g) AND FLAG_I = 0 \<and> has_pending_interrupts g
      then False else thumb_mode (cpu g))"
  by (simp add: step_def Let_def cpu_execute_arm cpu_execute_thumb handle_irq_thumb)

text \<open>
  Claim C10.  The member \<^verbatim>\<open>thumb_mode\<close> agrees with the T bit of the status register
  after \<open>reset\<close>, after \<open>handle_irq\<close> and after \<open>handle_fiq\<close> (from any state), and \<open>step\<close>
  preserves the agreement.
\<close>

theorem thumb_consistent_invariant:
  "thumb_consistent (reset c) \<and> thumb_consistent (handle_irq c) \<and> thumb_consistent (handle_fiq c)
   \<and> (thumb_consistent (cpu g) \<longrightarrow> thumb_consistent (cpu (step g)))"
proof -
  have "thumb_consistent (reset c)"
    by (simp add: thumb_consistent_def reset_def Let_def SYSTEM_def FLAG_T_def)
  moreover have "thumb_consistent (handle_irq c)"
    by (simp add: thumb_consistent_def handle_irq_cpsr handle_irq_thumb and_not_self)
  moreover have "thumb_consistent (handle_fiq c)"
    by (simp add: thumb_consistent_def handle_fiq_cpsr handle_fiq_thumb and_not_self)
  moreover have "thumb_consistent (cpu g) \<longrightarrow> thumb_consistent (cpu (step g))"
    by (simp add: thumb_consistent_def step_cpsr step_thumb_mode handle_irq_cpsr and_not_self)
  ultimately show ?thesis by blast
qed

text \<open>
  The machine after \<^verbatim>\<open>init\<close> satisfies the invariant, and so does the machine after one
  step from there.
\<close>

theorem thumb_consistent_invariant_witness:
  "thumb_consistent (cpu machine0) \<and> thumb_consistent (cpu (step machine0))"
proof -
  have "cpu machine0 = reset (cpu GBASystem_new)"
    by (simp add: machine0_def init_def)
  then show ?thesis
    using thumb_consistent_invariant [of "cpu GBASystem_new" machine0] by simp
qed

section \<open>Banked registers across a mode round trip\<close>

lemmas bank_defs = switch_mode_def get_current_mode_def save_banked_registers_def
  restore_banked_registers_def get_mode_index_def

text \<open>
  From System mode, a switch to IRQ and back restores R13 and R14: the slot for
  User/System is written when System is left and read when it is entered again.
\<close>

lemma system_irq_system_r13_r14:
  assumes "cpu_wf c" and "get_current_mode c = SYSTEM"
  shows "registers (switch_mode (switch_mode c IRQ) SYSTEM) ! 13 = registers c ! 13
       \<and> registers (switch_mode (switch_mode c IRQ) SYSTEM) ! 14 = registers c ! 14"
proof -
  have m: "get_current_mode (switch_mode c IRQ) = IRQ"
    using assms(2)
    by (simp add: get_current_mode_def switch_mode_cpsr mode_defs and.assoc
        bit.conj_disj_distrib2)
  show ?thesis
    using assms m
    by (simp add: cpu_wf_def switch_mode_def [of "switch_mode c IRQ"] Let_def)
       (simp add: bank_defs mode_defs upt_0_5 Let_def)
qed

text \<open>
  From System mode, a switch to FIQ and back leaves in R8 to R12 whatever the second half
  of \<^verbatim>\<open>banked_r8_r12\<close> held before, not the values the registers had.
\<close>

lemma system_fiq_system_r8_r12:
  assumes "cpu_wf c" and "get_current_mode c = SYSTEM"
  shows "registers (switch_mode (switch_mode c FIQ) SYSTEM) ! 8 = banked_r8_r12 c ! 5
       \<and> registers (switch_mode (switch_mode c FIQ) SYSTEM) ! 9 = banked_r8_r12 c ! 6
       \<and> registers (switch_mode (switch_mode c FIQ) SYSTEM) ! 10 = banked_r8_r12 c ! 7
       \<and> registers (switch_mode (switch_mode c FIQ) SYSTEM) ! 11 = banked_r8_r12 c ! 8
       \<and> registers (switch_mode (switch_mode c FIQ) SYSTEM) ! 12 = banked_r8_r12 c ! 9"
proof -
  have m: "get_current_mode (switch_mode c FIQ) = FIQ"
    using assms(2)
    by (simp add: get_current_mode_def switch_mode_cpsr mode_defs and.assoc
        bit.conj_disj_distrib2)
  show ?thesis
    using assms m
    by (simp add: cpu_wf_def switch_mode_def [of "switch_mode c FIQ"] Let_def)
       (simp add: bank_defs mode_defs upt_0_5 Let_def)
qed

text \<open>
  Claim C3.  The claim asks that a switch from System into FIQ and back preserves R8 to
  R12.  At the processor after reset with R8 = \<open>0xCAFEBABE\<close>, R13 = \<open>0x03007F00\<close> and
  R14 = \<open>0x08000200\<close>, the round trip restores R13 and R14 and leaves 0 in R8:
  \<open>restore_banked_registers\<close> reloads R8 to R12 from \<^verbatim>\<open>banked_r8_r12[5..9]\<close>, which
  \<open>save_banked_registers\<close> never writes.
\<close>

theorem fiq_round_trip_loses_r8:
  "cpu_wf mode_trip_cpu \<and> get_current_mode mode_trip_cpu = SYSTEM
   \<and> registers mode_trip_cpu ! 8 = 0xCAFEBABE
   \<and> registers (switch_mode (switch_mode mode_trip_cpu FIQ) SYSTEM) ! 8 = 0
   \<and> registers (switch_mode (switch_mode mode_trip_cpu FIQ) SYSTEM) ! 13 = 0x03007F00
   \<and> registers (switch_mode (switch_mode mode_trip_cpu FIQ) SYSTEM) ! 14 = 0x08000200"
  by (simp add: mode_trip_cpu_def cpu_wf_def reset_def GBASystem_new_def bank_defs mode_defs
      upt_0_5 Let_def)

section \<open>Interrupt entry\<close>

lemma bit0_nonzero: "bit (w :: 'a::len word) 0 \<Longrightarrow> w \<noteq> 0"
  by auto

lemma pending_from_bits:
  assumes "interrupt_master g AND 1 \<noteq> 0" and "bit (interrupt_enable g) 0"
    and "bit (interrupt_flags g) 0"
  shows "has_pending_interrupts g"
proof -
  from assms(2,3) have "bit (interrupt_flags g AND interrupt_enable g) 0"
    by (simp add: bit_and_iff)
  then have "interrupt_flags g AND interrupt_enable g \<noteq> 0"
    by (rule bit0_nonzero)
  with assms(1) show ?thesis by (simp add: has_pending_interrupts_def)
qed

lemma get_mode_index_IRQ: "get_mode_index m = 2 \<longleftrightarrow> m = IRQ"
  by (simp add: get_mode_index_def mode_defs)

lemma get_mode_index_FIQ: "get_mode_index m = Suc 0 \<longleftrightarrow> m = FIQ"
  by (simp add: get_mode_index_def mode_defs)

lemma switch_mode_length_registers: "length (registers (switch_mode c m)) = length (registers c)"
  by (simp add: bank_defs upt_0_5 Let_def)

lemma save_banked_r14_other:
  "get_mode_index m \<noteq> i \<Longrightarrow> banked_r14 (save_banked_registers c m) ! i = banked_r14 c ! i"
  by (auto simp add: save_banked_registers_def Let_def)

lemma switch_mode_IRQ_banked_r14: "banked_r14 (switch_mode c IRQ) ! 2 = banked_r14 c ! 2"
proof (cases "get_current_mode c = IRQ")
  case True
  then show ?thesis by (simp add: switch_mode_def)
next
  case False
  then have "get_mode_index (get_current_mode c) \<noteq> 2"
    by (simp add: get_mode_index_IRQ)
  with False show ?thesis
    by (simp add: switch_mode_def Let_def restore_banked_frame save_banked_r14_other)
qed

lemma switch_mode_r14_visible:
  assumes "get_current_mode c \<noteq> m" and "length (registers c) = 16"
  shows "registers (switch_mode c m) ! 14 = banked_r14 (switch_mode c m) ! get_mode_index m"
  using assms
  by (simp add: switch_mode_def Let_def restore_banked_frame)
     (simp add: restore_banked_registers_def save_banked_registers_def upt_0_5 Let_def)

lemma handle_irq_pc: "length (registers c) = 16 \<Longrightarrow> registers (handle_irq c) ! 15 = VECTOR_IRQ"
  by (simp add: handle_irq_def Let_def flush_pipeline_def switch_mode_length_registers)

lemma handle_irq_spsr: "length (spsr c) = 5 \<Longrightarrow> spsr (handle_irq c) ! 2 = cpsr c"
  by (simp add: handle_irq_def Let_def flush_pipeline_def switch_mode_frame_fields
      get_mode_index_def mode_defs)

lemma handle_irq_banked_r14:
  "length (banked_r14 c) = 6 \<Longrightarrow>
     banked_r14 (handle_irq c) ! 2 =
       (if thumb_mode c then registers c ! 15 - 2 else registers c ! 15 - 4)"
  by (simp add: handle_irq_def Let_def flush_pipeline_def switch_mode_IRQ_banked_r14)
     (simp add: get_mode_index_def mode_defs)

lemma handle_irq_r14_visible:
  assumes "get_current_mode c \<noteq> IRQ" and "length (registers c) = 16"
  shows "registers (handle_irq c) ! 14 = banked_r14 (handle_irq c) ! 2"
proof -
  have "registers (switch_mode c2 IRQ) ! 14 = banked_r14 (switch_mode c2 IRQ) ! 2"
    if "cpsr c2 = cpsr c" and "registers c2 = registers c" for c2
    using that assms switch_mode_r14_visible [of c2 IRQ]
    by (simp add: get_current_mode_def get_mode_index_def mode_defs)
  then show ?thesis
    by (simp add: handle_irq_def Let_def flush_pipeline_def)
qed

lemma handle_irq_mode: "get_current_mode (handle_irq c) = IRQ"
  by (simp add: get_current_mode_def handle_irq_cpsr mode_defs flag_defs and.assoc
        bit.conj_disj_distrib2)

lemma handle_irq_I: "cpsr (handle_irq c) AND FLAG_I = FLAG_I"
  by (simp add: handle_irq_cpsr mode_defs flag_defs and.assoc bit.conj_disj_distrib2)


lemma handle_irq_T: "cpsr (handle_irq c) AND FLAG_T = 0"
  by (simp add: handle_irq_cpsr and_not_self)

lemma step_irq:
  "cpsr (cpu g) AND FLAG_I = 0 \<Longrightarrow> has_pending_interrupts g \<Longrightarrow>
     step g = g\<lparr>cpu := handle_irq (cpu g)\<rparr>"
  by (simp add: step_def)

text \<open>
  What the code computes on an IRQ entry from System mode.  For every machine whose
  processor is well formed, in System mode, in ARM state, with PC = \<open>0x08000100\<close>, N, Z,
  C and V clear and the IRQ-disable bit clear, and whose interrupt controller has the
  master enable, enable bit 0 and request bit 0 set, one step ends in IRQ mode, in ARM
  state, with the IRQ-disable bit set and PC = \<open>0x00000018\<close>; the status register saved
  for IRQ mode is the one before entry; and R14 of IRQ mode (the bank slot and the
  visible register) holds \<open>0x080000FC\<close>.
\<close>

lemma irq_entry_from_system:
  assumes "cpu_wf (cpu g)"
    and "get_current_mode (cpu g) = SYSTEM"
    and "\<not> thumb_mode (cpu g)" and "cpsr (cpu g) AND FLAG_T = 0"
    and "registers (cpu g) ! 15 = 0x08000100"
    and "cpsr (cpu g) AND (FLAG_N OR FLAG_Z OR FLAG_C OR FLAG_V) = 0"
    and "cpsr (cpu g) AND FLAG_I = 0"
    and "interrupt_master g AND 1 \<noteq> 0"
    and "bit (interrupt_enable g) 0" and "bit (interrupt_flags g) 0"
  shows "get_current_mode (cpu (step g)) = IRQ
       \<and> \<not> thumb_mode (cpu (step g)) \<and> cpsr (cpu (step g)) AND FLAG_T = 0
       \<and> cpsr (cpu (step g)) AND FLAG_I = FLAG_I
       \<and> registers (cpu (step g)) ! 15 = 0x00000018
       \<and> banked_r14 (cpu (step g)) ! get_mode_index IRQ = 0x080000FC
       \<and> registers (cpu (step g)) ! 14 = 0x080000FC
       \<and> spsr (cpu (step g)) ! get_mode_index IRQ = cpsr (cpu g)"
proof -
  have s: "step g = g\<lparr>cpu := handle_irq (cpu g)\<rparr>"
    using assms by (simp add: step_irq pending_from_bits)
  have i: "get_mode_index IRQ = 2"
    by (simp add: get_mode_index_IRQ)
  have m: "get_current_mode (cpu g) \<noteq> IRQ"
    using assms(2) by (simp add: mode_defs)
  have l: "length (registers (cpu g)) = 16" "length (spsr (cpu g)) = 5"
    "length (banked_r14 (cpu g)) = 6"
    using assms(1) by (simp_all add: cpu_wf_def)
  have r: "banked_r14 (handle_irq (cpu g)) ! 2 = 0x080000FC"
    using assms(3,5) l by (simp add: handle_irq_banked_r14)
  show ?thesis
    using l m r
    by (simp add: s i handle_irq_mode handle_irq_thumb handle_irq_T handle_irq_I handle_irq_pc
        handle_irq_r14_visible handle_irq_spsr VECTOR_IRQ_def)
qed

text \<open>Evaluation of the concrete machines.\<close>

lemmas machine_defs = machine0_def vblank_machine_def irq_entry_machine_def init_def
  GBASystem_new_def reset_def memory_reset_def ppu_init_def request_interrupt_def
  write_io_register16_def reg_defs get_mode_index_def mode_defs

lemma irq_entry_machine_facts:
  "cpu_wf (cpu irq_entry_machine)"
  "registers (cpu irq_entry_machine) ! 15 = 0x08000100"
  "cpsr (cpu irq_entry_machine) = 0x1F"
  "thumb_mode (cpu irq_entry_machine) = False"
  "interrupt_master irq_entry_machine = 1"
  "interrupt_enable irq_entry_machine = 1"
  "interrupt_flags irq_entry_machine = 1"
  by (simp_all add: machine_defs cpu_wf_def Let_def)

text \<open>
  The V-blank machine with PC = \<open>0x08000100\<close> meets every hypothesis, and the step from
  it ends as stated.
\<close>

lemma irq_entry_from_system_example:
  "get_current_mode (cpu (step irq_entry_machine)) = IRQ
   \<and> \<not> thumb_mode (cpu (step irq_entry_machine))
   \<and> cpsr (cpu (step irq_entry_machine)) AND FLAG_T = 0
   \<and> cpsr (cpu (step irq_entry_machine)) AND FLAG_I = FLAG_I
   \<and> registers (cpu (step irq_entry_machine)) ! 15 = 0x00000018
   \<and> banked_r14 (cpu (step irq_entry_machine)) ! get_mode_index IRQ = 0x080000FC
   \<and> registers (cpu (step irq_entry_machine)) ! 14 = 0x080000FC
   \<and> spsr (cpu (step irq_entry_machine)) ! get_mode_index IRQ = 0x1F"
  using irq_entry_from_system [of irq_entry_machine]
  by (simp add: irq_entry_machine_facts get_current_mode_def SYSTEM_def flag_defs)

text \<open>
  Claim C1.  From System mode, ARM state, PC = \<open>0x08000100\<close>, all flags clear, with the
  master enable, enable bit 0 and request bit 0 set, one step is to leave \<open>0x08000104\<close>
  in R14 of IRQ mode.  The V-blank machine with that program counter meets these
  conditions, and the step from it leaves \<open>0x080000FC\<close> there: \<open>step\<close> tests for the
  interrupt before it fetches and advances the program counter, and \<open>handle_irq\<close> still
  subtracts one instruction width, so the address saved as the return address is that
  of the instruction before the one at the program counter.
\<close>

theorem irq_entry_saves_pc_minus_4:
  "get_current_mode (cpu irq_entry_machine) = SYSTEM
   \<and> \<not> thumb_mode (cpu irq_entry_machine)
   \<and> cpsr (cpu irq_entry_machine) AND FLAG_T = 0
   \<and> registers (cpu irq_entry_machine) ! 15 = 0x08000100
   \<and> cpsr (cpu irq_entry_machine) AND (FLAG_N OR FLAG_Z OR FLAG_C OR FLAG_V) = 0
   \<and> cpsr (cpu irq_entry_machine) AND FLAG_I = 0
   \<and> interrupt_master irq_entry_machine AND 1 \<noteq> 0
   \<and> bit (interrupt_enable irq_entry_machine) 0
   \<and> bit (interrupt_flags irq_entry_machine) 0
   \<and> banked_r14 (cpu (step irq_entry_machine)) ! get_mode_index IRQ = 0x080000FC
   \<and> banked_r14 (cpu (step irq_entry_machine)) ! get_mode_index IRQ \<noteq> 0x08000104"
proof -
  have p: "has_pending_interrupts irq_entry_machine"
    by (simp add: has_pending_interrupts_def irq_entry_machine_facts)
  have w: "length (banked_r14 (cpu irq_entry_machine)) = 6"
    using irq_entry_machine_facts(1) by (simp add: cpu_wf_def)
  have "banked_r14 (cpu (step irq_entry_machine)) ! 2 = 0x080000FC"
    using p w by (simp add: step_irq irq_entry_machine_facts flag_defs handle_irq_banked_r14)
  then show ?thesis
    by (simp add: irq_entry_machine_facts get_current_mode_def flag_defs
        get_mode_index_def mode_defs)
qed





section \<open>Instruction execution\<close>

lemma execute_arm_console: "(execute_arm g i)\<lparr>console := console g\<rparr> = g"
  by (simp add: execute_arm_def Let_def)

lemma execute_thumb_console: "(execute_thumb g i)\<lparr>console := console g\<rparr> = g"
  by (simp add: execute_thumb_def)

lemma step_no_irq_cpu:
  "\<not> (cpsr (cpu g) AND FLAG_I = 0 \<and> has_pending_interrupts g) \<Longrightarrow>
     cpu (step g) =
       (cpu g)\<lparr>registers := (registers (cpu g))
                  [15 := registers (cpu g) ! 15 + (if thumb_mode (cpu g) then 2 else 4)],
               cycles := cycles (cpu g) + 1\<rparr>"
  by (auto simp add: step_def Let_def cpu_execute_arm cpu_execute_thumb)

lemma undefined_machine_facts:
  "cpu_wf (cpu undefined_machine)"
  "registers (cpu undefined_machine) ! 15 = 0x08000000"
  "cpsr (cpu undefined_machine) = 0x1F"
  "thumb_mode (cpu undefined_machine) = False"
  "interrupt_master undefined_machine = 0"
  "rom (memory undefined_machine) = [0xF0, 0x00, 0xF0, 0xE7]"
  "console undefined_machine = []"
  by (simp_all add: undefined_machine_def machine_defs cpu_wf_def Let_def)

lemma undefined_machine_fetch:
  "read32 (memory undefined_machine) 0x08000000 = 0xE7F000F0"
  by (simp add: read32_def in_region_def region_defs load32_def undefined_machine_facts Let_def)

lemma undefined_machine_no_irq:
  "\<not> (cpsr (cpu undefined_machine) AND FLAG_I = 0 \<and> has_pending_interrupts undefined_machine)"
  by (simp add: has_pending_interrupts_def undefined_machine_facts)

lemma undefined_machine_console:
  "console (step undefined_machine) = [ARM_instruction 0xE7F000F0]"
  using undefined_machine_no_irq
  by (simp add: step_def Let_def undefined_machine_facts undefined_machine_fetch execute_arm_def
      check_condition_def)

lemma execute_arm_log:
  "\<exists>out. length out \<le> 1 \<and> execute_arm g i = g\<lparr>console := console g @ out\<rparr>"
proof (cases "execute_arm g i = g")
  case True
  then have "length ([] :: log_line list) \<le> 1 \<and> execute_arm g i = g\<lparr>console := console g @ []\<rparr>"
    by simp
  then show ?thesis by blast
next
  case False
  then have "\<exists>l. execute_arm g i = g\<lparr>console := console g @ [l]\<rparr>"
    by (auto simp add: execute_arm_def Let_def split: if_splits)
  then obtain l where "length [l] \<le> 1 \<and> execute_arm g i = g\<lparr>console := console g @ [l]\<rparr>"
    by auto
  then show ?thesis by blast
qed

lemma execute_thumb_log:
  "\<exists>l. execute_thumb g h = g\<lparr>console := console g @ [l]\<rparr>"
  unfolding execute_thumb_def by (cases "h AND 0xFF00 = 0xDF00") (simp_all, blast+)

lemma step_no_irq:
  assumes "\<not> (cpsr (cpu g) AND FLAG_I = 0 \<and> has_pending_interrupts g)"
  shows "\<exists>out. length out \<le> 1 \<and>
     step g = g\<lparr>cpu := (cpu g)\<lparr>registers := (registers (cpu g))
                  [15 := registers (cpu g) ! 15 + (if thumb_mode (cpu g) then 2 else 4)],
               cycles := cycles (cpu g) + 1\<rparr>,
              console := console g @ out\<rparr>"
proof (cases "thumb_mode (cpu g)")
  case True
  let ?g' = "g\<lparr>cpu := (cpu g)\<lparr>registers := (registers (cpu g))[15 := registers (cpu g) ! 15 + 2]\<rparr>\<rparr>"
  obtain l where "execute_thumb ?g' (read16 (memory g) (registers (cpu g) ! 15))
      = ?g'\<lparr>console := console ?g' @ [l]\<rparr>"
    using execute_thumb_log by blast
  with True assms have "length [l] \<le> 1 \<and>
     step g = g\<lparr>cpu := (cpu g)\<lparr>registers := (registers (cpu g))
                  [15 := registers (cpu g) ! 15 + (if thumb_mode (cpu g) then 2 else 4)],
               cycles := cycles (cpu g) + 1\<rparr>,
              console := console g @ [l]\<rparr>"
    by (auto simp add: step_def Let_def)
  then show ?thesis by blast
next
  case False
  let ?g' = "g\<lparr>cpu := (cpu g)\<lparr>registers := (registers (cpu g))[15 := registers (cpu g) ! 15 + 4]\<rparr>\<rparr>"
  obtain out where "length out \<le> 1" and "execute_arm ?g' (read32 (memory g) (registers (cpu g) ! 15))
      = ?g'\<lparr>console := console ?g' @ out\<rparr>"
    using execute_arm_log by blast
  with False assms have "length out \<le> 1 \<and>
     step g = g\<lparr>cpu := (cpu g)\<lparr>registers := (registers (cpu g))
                  [15 := registers (cpu g) ! 15 + (if thumb_mode (cpu g) then 2 else 4)],
               cycles := cycles (cpu g) + 1\<rparr>,
              console := console g @ out\<rparr>"
    by (auto simp add: step_def Let_def)
  then show ?thesis by blast
qed

text \<open>
  Claim C5, as the code has it.  No instruction is implemented and there is no
  Undefined-instruction entry sequence.  For every machine and every instruction word,
  \<open>execute_arm\<close> and \<open>execute_thumb\<close> return the machine they were given with at most
  one line added to the log (exactly one for \<open>execute_thumb\<close>).  A step that does not
  take an interrupt returns the machine it was given with the program counter advanced
  by the instruction width, the cycle count increased by one and at most one line added
  to the log: the mode, the status register, the banked registers, the saved status
  registers, the memory and the interrupt registers are as they were.
\<close>

theorem execute_only_logs:
  "(\<exists>out. length out \<le> 1 \<and> execute_arm g i = g\<lparr>console := console g @ out\<rparr>)
   \<and> (\<exists>l. execute_thumb g h = g\<lparr>console := console g @ [l]\<rparr>)
   \<and> (\<not> (cpsr (cpu g) AND FLAG_I = 0 \<and> has_pending_interrupts g) \<longrightarrow>
        (\<exists>out. length out \<le> 1 \<and>
           step g = g\<lparr>cpu := (cpu g)\<lparr>registers := (registers (cpu g))
                       [15 := registers (cpu g) ! 15 + (if thumb_mode (cpu g) then 2 else 4)],
                     cycles := cycles (cpu g) + 1\<rparr>,
                   console := console g @ out\<rparr>))"
  using execute_arm_log [of g i] execute_thumb_log [of g h] step_no_irq [of g]
  by blast

text \<open>
  The machine with the undefined word at the program counter takes no interrupt; the
  step from it advances the program counter, counts a cycle, stays in System mode and
  leaves the memory and the interrupt registers alone.
\<close>

theorem execute_only_logs_witness:
  "\<not> (cpsr (cpu undefined_machine) AND FLAG_I = 0 \<and> has_pending_interrupts undefined_machine)
   \<and> registers (cpu (step undefined_machine)) ! 15 = 0x08000004
   \<and> cycles (cpu (step undefined_machine)) = 1
   \<and> get_current_mode (cpu (step undefined_machine)) = SYSTEM
   \<and> memory (step undefined_machine) = memory undefined_machine
   \<and> interrupt_flags (step undefined_machine) = interrupt_flags undefined_machine
   \<and> interrupt_master (step undefined_machine) = interrupt_master undefined_machine"
proof -
  from undefined_machine_no_irq execute_only_logs [of undefined_machine]
  obtain out where "step undefined_machine =
      undefined_machine\<lparr>cpu := (cpu undefined_machine)\<lparr>registers :=
          (registers (cpu undefined_machine))
             [15 := registers (cpu undefined_machine) ! 15 +
                (if thumb_mode (cpu undefined_machine) then 2 else 4)],
          cycles := cycles (cpu undefined_machine) + 1\<rparr>,
        console := console undefined_machine @ out\<rparr>"
    by blast
  moreover have "length (registers (cpu undefined_machine)) = 16"
    and "cycles (cpu undefined_machine) = 0"
    by (simp_all add: undefined_machine_def machine_defs Let_def)
  ultimately show ?thesis
    using undefined_machine_no_irq
    by (simp add: undefined_machine_facts get_current_mode_def SYSTEM_def)
qed

text \<open>
  Claim C5 as stated asks that an unrecognised word enter the Undefined-instruction
  exception.  The step that fetches \<open>0xE7F000F0\<close> stays in System mode, moves the
  program counter to the next word rather than to the Undefined vector, saves no return
  address and no status register, and prints one line.
\<close>

theorem undefined_instruction_counterexample:
  "read32 (memory undefined_machine) (registers (cpu undefined_machine) ! 15) = 0xE7F000F0
   \<and> get_current_mode (cpu undefined_machine) = SYSTEM
   \<and> get_current_mode (cpu (step undefined_machine)) = SYSTEM
   \<and> get_current_mode (cpu (step undefined_machine)) \<noteq> UNDEFINED
   \<and> registers (cpu (step undefined_machine)) ! 15 = 0x08000004
   \<and> registers (cpu (step undefined_machine)) ! 15 \<noteq> VECTOR_UNDEFINED
   \<and> banked_r14 (cpu (step undefined_machine)) = banked_r14 (cpu undefined_machine)
   \<and> spsr (cpu (step undefined_machine)) = spsr (cpu undefined_machine)
   \<and> console (step undefined_machine) = [ARM_instruction 0xE7F000F0]"
proof -
  have l: "length (registers (cpu undefined_machine)) = 16"
    using undefined_machine_facts(1) by (simp add: cpu_wf_def)
  show ?thesis
    using l
    by (simp add: step_no_irq_cpu [OF undefined_machine_no_irq] undefined_machine_console
        undefined_machine_fetch undefined_machine_facts get_current_mode_def mode_defs
        vector_defs)
qed

section \<open>Arbitration between FIQ and IRQ\<close>







section \<open>Interrupt requests and their acknowledgement\<close>












section \<open>Sub-word bus writes\<close>

lemma and3_cases: "(a :: u32) AND 3 = 0 \<or> a AND 3 = 1 \<or> a AND 3 = 2 \<or> a AND 3 = 3"
proof -
  have "a AND 3 \<le> 3" by (rule word_and_le1)
  then have "unat (a AND 3) \<le> 3" by (simp add: word_le_nat_alt)
  then have "unat (a AND 3) = 0 \<or> unat (a AND 3) = 1 \<or> unat (a AND 3) = 2 \<or> unat (a AND 3) = 3"
    by arith
  moreover have "a AND 3 = of_nat (unat (a AND 3))"
    by simp
  ultimately show ?thesis
    by (elim disjE) (simp_all only: of_nat_0 of_nat_1 of_nat_numeral, simp_all)
qed

lemma lane_merge8:
  assumes "k < 4" and "j < 4"
  shows "byte_lane ((old AND NOT (push_bit (8 * j) (mask 8))) OR push_bit (8 * j) (ucast (v :: u8))) k
       = (if k = j then v else byte_lane old k)"
proof (rule bit_word_eqI)
  fix n :: nat
  assume "n < LENGTH(8)"
  then have n: "n < 8" by simp
  show "bit (byte_lane ((old AND NOT (push_bit (8 * j) (mask 8))) OR push_bit (8 * j) (ucast v)) k) n
      = bit (if k = j then v else byte_lane old k) n"
  proof (cases "k = j")
    case True
    with n assms show ?thesis
      by (auto simp add: byte_lane_def bit_simps)
  next
    case False
    have B: "x < 8" if "bit v x" for x
      using that bit_imp_le_length [of v x] by simp
    from False n have out: "\<not> (8 * j \<le> 8 * k + n \<and> 8 * k + n - 8 * j < 8)"
      by arith
    then have "\<not> (8 * j \<le> 8 * k + n \<and> bit v (8 * k + n - 8 * j))"
      using B by blast
    with out False n assms show ?thesis
      by (auto simp add: byte_lane_def bit_simps)
  qed
qed

lemma lane_merge16:
  assumes "k < 4" and "j < 4"
  shows "byte_lane ((old AND NOT (push_bit (8 * j) (mask 16))) OR push_bit (8 * j) (ucast (h :: u16))) k
       = (if k = j then ucast h else if k = j + 1 then ucast (drop_bit 8 h)
          else byte_lane old k)"
proof (rule bit_word_eqI)
  fix n :: nat
  assume "n < LENGTH(8)"
  then have n: "n < 8" by simp
  have B: "x < 16" if "bit h x" for x
    using that bit_imp_le_length [of h x] by simp
  consider "k = j" | "k = j + 1" | "k \<noteq> j" "k \<noteq> j + 1" by blast
  then show "bit (byte_lane ((old AND NOT (push_bit (8 * j) (mask 16))) OR
                push_bit (8 * j) (ucast h)) k) n
      = bit (if k = j then ucast h else if k = j + 1 then ucast (drop_bit 8 h)
             else byte_lane old k) n"
  proof cases
    case 1
    with n assms show ?thesis
      by (auto simp add: byte_lane_def bit_simps)
  next
    case 2
    then have "8 * k + n - 8 * j = 8 + n" by simp
    with 2 n assms show ?thesis
      by (auto simp add: byte_lane_def bit_simps)
  next
    case 3
    with n have out: "\<not> (8 * j \<le> 8 * k + n \<and> 8 * k + n - 8 * j < 16)"
      by arith
    then have "\<not> (8 * j \<le> 8 * k + n \<and> bit h (8 * k + n - 8 * j))"
      using B by blast
    with out 3 n assms show ?thesis
      by (auto simp add: byte_lane_def bit_simps)
  qed
qed

lemma and3_low_bits:
  "(a :: u32) AND 1 = (a AND 3) AND 1" "a AND 2 = (a AND 3) AND 2"
  by (simp_all add: and.assoc)

lemma shift_amount: "unat (((a :: u32) AND 3) * 8) = 8 * unat (a AND 3)"
  using and3_cases [of a] by (elim disjE) simp_all

lemma unat_and3_less: "unat ((a :: u32) AND 3) < 4"
  using and3_cases [of a] by (elim disjE) simp_all

lemma write8_merged:
  "write8 m a v =
     write32 m (a AND NOT 3)
       ((read32 m (a AND NOT 3) AND NOT (push_bit (8 * unat (a AND 3)) (mask 8)))
          OR push_bit (8 * unat (a AND 3)) (ucast v))"
proof -
  have "(mask 8 :: u32) = 0xFF" by (simp add: mask_eq_exp_minus_1)
  then show ?thesis
    by (simp only: write8_def Let_def shift_amount)
qed

lemma write16_merged:
  "write16 m a h =
     write32 m (a AND NOT 3)
       ((read32 m (a AND NOT 3) AND NOT (push_bit (8 * unat (a AND 3)) (mask 16)))
          OR push_bit (8 * unat (a AND 3)) (ucast h))"
proof -
  have k: "(mask 16 :: u32) = 0xFFFF" by (simp add: mask_eq_exp_minus_1)
  have e2: "(- 4294901761 :: u32) = 0xFFFF"
    and e0: "(0xFFFF0000 :: u32) = - 0x10000"
    by simp_all
  from and3_cases [of a] show ?thesis
  proof (elim disjE)
    assume c: "a AND 3 = 0"
    then have "a AND 1 = 0" "a AND 2 = 0" using and3_low_bits [of a] by simp_all
    with c show ?thesis by (simp add: write16_def Let_def e0 k)
  next
    assume c: "a AND 3 = 1"
    then have "a AND 1 \<noteq> 0" using and3_low_bits [of a] by simp
    with c show ?thesis by (simp add: write16_def Let_def k)
  next
    assume c: "a AND 3 = 2"
    then have "a AND 1 = 0" "a AND 2 \<noteq> 0" using and3_low_bits [of a] by simp_all
    with c show ?thesis by (simp add: write16_def Let_def e2 k)
  next
    assume c: "a AND 3 = 3"
    then have "a AND 1 \<noteq> 0" using and3_low_bits [of a] by simp
    with c show ?thesis by (simp add: write16_def Let_def k)
  qed
qed

lemma load_store32: "load32 (store32 a off v) off = v"
proof (rule bit_word_eqI)
  fix n :: nat
  assume n: "n < LENGTH(32)"
  have a: "8 \<le> n \<Longrightarrow> 8 + (n - 8) = n" and b: "16 \<le> n \<Longrightarrow> 16 + (n - 16) = n"
    and c: "24 \<le> n \<Longrightarrow> 24 + (n - 24) = n"
    by simp_all
  from n show "bit (load32 (store32 a off v) off) n = bit v n"
    unfolding load32_def store32_def
    by (cases "n < 8"; cases "n < 16"; cases "n < 24") (auto simp add: bit_simps a b c not_less)
qed

lemma and_not3_idem: "((a :: u32) AND NOT 3) AND NOT 3 = a AND NOT 3"
  by (simp add: and.assoc)

lemma read32_write32:
  assumes "is_writable m (a AND NOT 3)"
  shows "read32 (write32 m a v) a = v"
  using assms
  unfolding is_writable_def read32_def write32_def Let_def
  by (auto simp add: in_region_def region_defs load_store32)

lemma ewram_start_round_trip:
  "read32 (write32 m EWRAM_START 0xDEADBEEF) EWRAM_START = 0xDEADBEEF"
  by (rule read32_write32) (simp add: is_writable_def in_region_def region_defs)

lemma iwram_start_round_trip:
  "read32 (write32 m IWRAM_START 0xDEADBEEF) IWRAM_START = 0xDEADBEEF"
  by (rule read32_write32) (simp add: is_writable_def in_region_def region_defs)

lemma odd_halfword_example:
  "read32 (write16 (write32 m EWRAM_START 0xDEADBEEF) (EWRAM_START + 1) 0x1234) EWRAM_START
     = 0xDE1234EF"
proof -
  let ?m1 = "write32 m EWRAM_START 0xDEADBEEF"
  have w: "is_writable m' (EWRAM_START AND NOT 3)" for m'
    by (simp add: is_writable_def in_region_def region_defs)
  have a: "(EWRAM_START + 1) AND NOT 3 = EWRAM_START" "(EWRAM_START + 1) AND 1 \<noteq> 0"
    "((EWRAM_START + 1) AND 3) * 8 = 8"
    by (simp_all add: region_defs)
  have "write16 ?m1 (EWRAM_START + 1) 0x1234 = write32 ?m1 EWRAM_START 0xDE1234EF"
    using a by (simp add: write16_def Let_def ewram_start_round_trip)
  then show ?thesis
    by (simp add: read32_write32 [OF w])
qed

lemma ucast_low_byte: "(ucast ((x :: u32) AND 0xFF) :: u8) = ucast x"
proof -
  have "(0xFF :: u32) = mask 8" by (simp add: mask_eq_exp_minus_1)
  then have "(ucast (x AND 0xFF) :: u8) = ucast (x AND mask 8)" by (simp only:)
  also have "\<dots> = ucast x"
    by (rule bit_word_eqI) (auto simp add: bit_simps)
  finally show ?thesis .
qed

lemma read8_lane: "read8 m a = byte_lane (read32 m (a AND NOT 3)) (unat (a AND 3))"
  by (simp only: read8_def Let_def byte_lane_def shift_amount ucast_low_byte)

lemma read8_write8:
  assumes "is_writable m (a AND NOT 3)"
  shows "read8 (write8 m a v) a = v"
proof -
  let ?w = "(read32 m (a AND NOT 3) AND NOT (push_bit (8 * unat (a AND 3)) (mask 8)))
          OR push_bit (8 * unat (a AND 3)) (ucast v)"
  have w: "is_writable m ((a AND NOT 3) AND NOT 3)"
    using assms by (simp only: and_not3_idem)
  have "read8 (write8 m a v) a = byte_lane (read32 (write32 m (a AND NOT 3) ?w) (a AND NOT 3)) (unat (a AND 3))"
    by (simp only: read8_lane write8_merged)
  also have "\<dots> = byte_lane ?w (unat (a AND 3))"
    by (simp only: read32_write32 [OF w])
  also have "\<dots> = v"
    using lane_merge8 [OF unat_and3_less [of a] unat_and3_less [of a]]
    by simp
  finally show ?thesis .
qed

text \<open>
  The lanes that sub-word writes do merge.  For every memory, address and value,
  \<open>write8\<close> and \<open>write16\<close> are one \<open>write32\<close> to the containing aligned word of a
  word \<open>w\<close> whose byte lanes are those of the word read there, except that the lane the
  address points at holds the new byte; for \<open>write16\<close> that lane holds the low byte and
  the next lane of the same word, when there is one, holds the high byte.  At an
  address with low bits 3 there is no next lane, and the statement says nothing of the
  high byte.  On a writable word the value written is the value read back, by \<open>read32\<close>
  after \<open>write32\<close> and by \<open>read8\<close> after \<open>write8\<close>; \<open>0xDEADBEEF\<close> written to the
  start of either work RAM is read back, and \<open>0x1234\<close> written as a halfword one byte
  above turns that word into \<open>0xDE1234EF\<close>.
\<close>

lemma subword_writes_lanes:
  "(\<exists>w. write8 m a v = write32 m (a AND NOT 3) w
        \<and> (\<forall>k<4. byte_lane w k =
               (if k = unat (a AND 3) then v else byte_lane (read32 m (a AND NOT 3)) k)))
   \<and> (\<exists>w. write16 m a h = write32 m (a AND NOT 3) w
        \<and> (\<forall>k<4. byte_lane w k =
               (if k = unat (a AND 3) then ucast h
                else if k = unat (a AND 3) + 1 then ucast (drop_bit 8 h)
                else byte_lane (read32 m (a AND NOT 3)) k)))
   \<and> (is_writable m (a AND NOT 3) \<longrightarrow>
        read32 (write32 m a x) a = x \<and> read8 (write8 m a v) a = v)
   \<and> read32 (write32 m EWRAM_START 0xDEADBEEF) EWRAM_START = 0xDEADBEEF
   \<and> read32 (write32 m IWRAM_START 0xDEADBEEF) IWRAM_START = 0xDEADBEEF
   \<and> read32 (write16 (write32 m EWRAM_START 0xDEADBEEF) (EWRAM_START + 1) 0x1234) EWRAM_START
       = 0xDE1234EF"
proof -
  have "\<exists>w. write8 m a v = write32 m (a AND NOT 3) w
        \<and> (\<forall>k<4. byte_lane w k =
               (if k = unat (a AND 3) then v else byte_lane (read32 m (a AND NOT 3)) k))"
    using write8_merged [of m a v] lane_merge8 [OF _ unat_and3_less [of a]]
    by blast
  moreover have "\<exists>w. write16 m a h = write32 m (a AND NOT 3) w
        \<and> (\<forall>k<4. byte_lane w k =
               (if k = unat (a AND 3) then ucast h
                else if k = unat (a AND 3) + 1 then ucast (drop_bit 8 h)
                else byte_lane (read32 m (a AND NOT 3)) k))"
    using write16_merged [of m a h] lane_merge16 [OF _ unat_and3_less [of a]]
    by blast
  ultimately show ?thesis
    using read32_write32 [of m a x] read8_write8 [of m a v] ewram_start_round_trip [of m] iwram_start_round_trip [of m]
      odd_halfword_example [of m]
    by blast
qed

text \<open>
  At address \<open>0x02000001\<close> of the memory after \<^verbatim>\<open>init\<close>, which lies in a writable word.
\<close>

lemma subword_writes_lanes_example:
  "is_writable (memory machine0) (0x02000001 AND NOT 3)
   \<and> read32 (write32 (memory machine0) 0x02000001 0xCAFEF00D) 0x02000001 = 0xCAFEF00D
   \<and> read8 (write8 (memory machine0) 0x02000001 0xAB) 0x02000001 = 0xAB
   \<and> read32 (write16 (write32 (memory machine0) EWRAM_START 0xDEADBEEF) (EWRAM_START + 1)
         0x1234) EWRAM_START = 0xDE1234EF"
proof -
  have w: "is_writable (memory machine0) (0x02000001 AND NOT 3)"
    by (simp add: is_writable_def in_region_def region_defs)
  from w subword_writes_lanes [of "memory machine0" "0x02000001" "0xAB" "0x1234" "0xCAFEF00D"]
  show ?thesis
    by blast
qed

text \<open>
  At an address with low bits 3, \<open>write16\<close> is \<open>write8\<close> of the low byte.
\<close>

lemma write16_offset3_is_write8:
  assumes "a AND 3 = 3"
  shows "write16 m a h = write8 m a (ucast h)"
proof -
  have o: "a AND 1 \<noteq> 0"
    using assms and3_low_bits(1) [of a] by simp
  have "(x AND NOT (push_bit 24 (0xFFFF :: u32))) OR push_bit 24 (ucast h)
      = (x AND NOT (push_bit 24 (0xFF :: u32))) OR push_bit 24 (ucast (ucast h :: u8))" for x :: u32
  proof -
    have k: "(0xFFFF :: u32) = mask 16" "(0xFF :: u32) = mask 8"
      by (simp_all add: mask_eq_exp_minus_1)
    show ?thesis
      unfolding k
      by (rule bit_word_eqI) (auto simp add: bit_simps)
  qed
  with o assms show ?thesis
    by (simp add: write16_def write8_def Let_def)
qed

lemma deadbeef_memory_read: "read32 deadbeef_memory EWRAM_START = 0xDEADBEEF"
  by (simp add: deadbeef_memory_def ewram_start_round_trip)

lemma offset3_address:
  "(EWRAM_START + 3) AND NOT 3 = EWRAM_START" "(EWRAM_START + 3) AND 3 = 3"
  "(EWRAM_START + 4) AND NOT 3 = EWRAM_START + 4" "(EWRAM_START + 4) AND 3 = 0"
  "EWRAM_START AND NOT 3 = EWRAM_START"
  by (simp_all add: region_defs)

lemma deadbeef_write16_offset3:
  "write16 deadbeef_memory (EWRAM_START + 3) 0x1234
     = write32 deadbeef_memory EWRAM_START 0x34ADBEEF"
  "write16 deadbeef_memory (EWRAM_START + 3) 0xFF34
     = write32 deadbeef_memory EWRAM_START 0x34ADBEEF"
proof -
  have r: "read32 deadbeef_memory 0x02000000 = 0xDEADBEEF"
    using deadbeef_memory_read by (simp add: region_defs)
  have t: "(0x1234ADBEEF :: u32) = 0x34ADBEEF" "(0xFF34ADBEEF :: u32) = 0x34ADBEEF"
    by simp_all
  show "write16 deadbeef_memory (EWRAM_START + 3) 0x1234
     = write32 deadbeef_memory EWRAM_START 0x34ADBEEF"
    by (simp add: write16_def Let_def region_defs r t)
  show "write16 deadbeef_memory (EWRAM_START + 3) 0xFF34
     = write32 deadbeef_memory EWRAM_START 0x34ADBEEF"
    by (simp add: write16_def Let_def region_defs r t)
qed

lemma ewram_writable: "is_writable m (EWRAM_START AND NOT 3)"
  by (simp add: is_writable_def in_region_def region_defs)

lemma deadbeef_next_word:
  "read32 (write32 deadbeef_memory EWRAM_START x) (EWRAM_START + 4) = 0"
  by (simp add: deadbeef_memory_def machine_defs read32_def write32_def Let_def in_region_def
      region_defs load32_def store32_def)

text \<open>
  Claim C6.  Every \<open>write16\<close> is to merge the new halfword into the containing
  aligned word and preserve the rest, as \<open>0x1234\<close> written to an odd address should.
  With \<open>0xDEADBEEF\<close> at the start of work RAM and 0 in the next word, the halfword
  \<open>0x1234\<close> written three bytes above the start puts \<open>0x34\<close> in the top byte of the
  word and nothing anywhere else: the next word is still 0, the high byte \<open>0x12\<close> is
  lost (the halfword \<open>0xFF34\<close> gives the same memory), and \<open>read16\<close> at the address
  written returns \<open>0x34AD\<close>.  The source masks with \<^verbatim>\<open>0xFFFF << 24\<close> and shifts the
  value by 24 within 32 bits, under the comment \<^verbatim>\<open>Unaligned write - handle carefully\<close>.
\<close>

theorem write16_offset3_drops_high_byte:
  "read32 deadbeef_memory EWRAM_START = 0xDEADBEEF
   \<and> read32 deadbeef_memory (EWRAM_START + 4) = 0
   \<and> read32 (write16 deadbeef_memory (EWRAM_START + 3) 0x1234) EWRAM_START = 0x34ADBEEF
   \<and> read32 (write16 deadbeef_memory (EWRAM_START + 3) 0x1234) (EWRAM_START + 4) = 0
   \<and> read8 (write16 deadbeef_memory (EWRAM_START + 3) 0x1234) (EWRAM_START + 3) = 0x34
   \<and> read8 (write16 deadbeef_memory (EWRAM_START + 3) 0x1234) (EWRAM_START + 4) = 0
   \<and> read16 (write16 deadbeef_memory (EWRAM_START + 3) 0x1234) (EWRAM_START + 3) = 0x34AD
   \<and> write16 deadbeef_memory (EWRAM_START + 3) 0x1234
       = write16 deadbeef_memory (EWRAM_START + 3) 0xFF34"
proof -
  let ?m = "write32 deadbeef_memory EWRAM_START 0x34ADBEEF"
  have r: "read32 ?m EWRAM_START = 0x34ADBEEF"
    by (rule read32_write32) (rule ewram_writable)
  have n: "read32 ?m (EWRAM_START + 4) = 0"
    by (rule deadbeef_next_word)
  have n0: "read32 deadbeef_memory (EWRAM_START + 4) = 0"
    by (simp add: deadbeef_memory_def machine_defs read32_def write32_def Let_def in_region_def
      region_defs load32_def store32_def)
  have r': "read32 (write32 deadbeef_memory 0x02000000 0x34ADBEEF) 0x02000000 = 0x34ADBEEF"
    and n': "read32 (write32 deadbeef_memory 0x02000000 0x34ADBEEF) 0x02000004 = 0"
    using r n by (simp_all add: region_defs)
  have b3: "read8 ?m (EWRAM_START + 3) = 0x34"
    by (simp add: read8_def Let_def region_defs r')
  have b4: "read8 ?m (EWRAM_START + 4) = 0"
    by (simp add: read8_def Let_def region_defs n')
  have h3: "read16 ?m (EWRAM_START + 3) = 0x34AD"
    by (simp add: read16_def Let_def region_defs r')
  show ?thesis
    by (simp only: deadbeef_write16_offset3 deadbeef_memory_read r n n0 b3 b4 h3 simp_thms)
qed

end
